theory Spec2Isabelle
  imports Complex_Main
begin

section \<open>Python values\<close>

text \<open>
  The views of \<^verbatim>\<open>app.py\<close> pass dynamically typed values around: what
  \<^verbatim>\<open>json.loads\<close> returns, what a form field's \<^verbatim>\<open>.data\<close> holds, what is
  assigned to a column attribute. \<open>PTuple\<close> is needed because two assignments of
  the source end in a comma and so build a one-element tuple. A JSON number with
  a fraction is carried through unchanged as \<open>PFloat\<close>.
\<close>

datatype pyval =
    PNone
  | PBool bool
  | PInt int
  | PFloat rat
  | PStr string
  | PList "pyval list"
  | PTuple "pyval list"

text \<open>Python truthiness, as used by \<^verbatim>\<open>x or y\<close>.\<close>

fun truthy :: "pyval \<Rightarrow> bool" where
  "truthy PNone = False"
| "truthy (PBool b) = b"
| "truthy (PInt i) = (i \<noteq> 0)"
| "truthy (PFloat q) = (q \<noteq> 0)"
| "truthy (PStr s) = (s \<noteq> [])"
| "truthy (PList xs) = (xs \<noteq> [])"
| "truthy (PTuple xs) = (xs \<noteq> [])"

text \<open>The exceptions that leave a view, and the 404 abort of \<^verbatim>\<open>get_or_404\<close>.\<close>

datatype error =
    KeyError string
  | AttributeError string
  | IntegrityError
  | NotFound404

definition bind_err :: "error + 'a \<Rightarrow> ('a \<Rightarrow> error + 'b) \<Rightarrow> error + 'b" where
  "bind_err r f = (case r of Inl e \<Rightarrow> Inl e | Inr v \<Rightarrow> f v)"

text \<open>\<^verbatim>\<open>d[k]\<close> on a dict: a missing key raises \<^verbatim>\<open>KeyError\<close>.\<close>

definition getitem :: "(string \<rightharpoonup> pyval) \<Rightarrow> string \<Rightarrow> error + pyval" where
  "getitem d k = (case d k of None \<Rightarrow> Inl (KeyError k) | Some v \<Rightarrow> Inr v)"

text \<open>
  \<^verbatim>\<open>s.partition(sep)\<close> for a one-character separator: the text before the first
  occurrence, the separator, the text after it; the whole string and two empty
  strings when the separator does not occur.
\<close>

fun partition_chr :: "char \<Rightarrow> string \<Rightarrow> string \<times> string \<times> string" where
  "partition_chr c [] = ([], [], [])"
| "partition_chr c (x # xs) =
     (if x = c then ([], [c], xs)
      else (case partition_chr c xs of (h, s, t) \<Rightarrow> (x # h, s, t)))"

text \<open>
  \<^verbatim>\<open>v.partition('/')\<close> on a Python value: only \<^verbatim>\<open>str\<close> has the method among the
  values JSON decoding produces.
\<close>

fun py_partition :: "pyval \<Rightarrow> error + (string \<times> string \<times> string)" where
  "py_partition (PStr s) = Inr (partition_chr CHR ''/'' s)"
| "py_partition v = Inl (AttributeError ''partition'')"

text \<open>Decimal rendering of an id inside an f-string.\<close>

definition digit_chr :: "nat \<Rightarrow> char" where
  "digit_chr d =
     (if d = 0 then CHR ''0'' else if d = 1 then CHR ''1'' else if d = 2 then CHR ''2''
      else if d = 3 then CHR ''3'' else if d = 4 then CHR ''4'' else if d = 5 then CHR ''5''
      else if d = 6 then CHR ''6'' else if d = 7 then CHR ''7'' else if d = 8 then CHR ''8''
      else CHR ''9'')"

fun str_nat :: "nat \<Rightarrow> string" where
  "str_nat n = (if n < 10 then [digit_chr n] else str_nat (n div 10) @ [digit_chr (n mod 10)])"

declare str_nat.simps [simp del]

section \<open>Entities\<close>

text \<open>
  The attributes the views read and write on the ORM classes \<^verbatim>\<open>Users\<close>,
  \<^verbatim>\<open>Mods\<close> and \<^verbatim>\<open>Records\<close>. The primary key of an object is \<open>None\<close> until a
  commit has inserted it.
\<close>

record users =
  users_id :: "nat option"
  username :: pyval
  email :: pyval
  password :: pyval
  image_url :: pyval

record mods =
  mods_id :: "nat option"
  title :: pyval
  file_id :: pyval
  url :: pyval
  description :: pyval
  date_uploaded :: pyval
  author :: pyval
  category :: string
  rating :: pyval
  rating_count :: pyval

record records =
  records_id :: "nat option"
  user_id :: "nat option"
  mod_id :: nat
  user_notes :: pyval
  user_review :: pyval
  now_playing :: pyval
  play_status :: pyval

text \<open>An id as it appears in a JSON response or in the session.\<close>

fun id_val :: "nat option \<Rightarrow> pyval" where
  "id_val None = PNone"
| "id_val (Some n) = PInt (int n)"

section \<open>What \<^verbatim>\<open>models.py\<close> and \<^verbatim>\<open>forms.py\<close> declare\<close>

text \<open>
  Neither file is among the sources. What the views use of them is taken as a
  parameter: the password hash of \<^verbatim>\<open>Users.signup\<close>, the value of
  \<^verbatim>\<open>Users.image_url.default.arg\<close> (read by \<^verbatim>\<open>register\<close>), the outcome of evaluating
  \<^verbatim>\<open>Users.image_url.default.args\<close> (read by \<^verbatim>\<open>edit_user\<close>; an attribute of another
  name, so it may raise), the column values of a freshly constructed \<^verbatim>\<open>Records\<close>
  object, and the validators of the three forms.
\<close>

record decls =
  pw_hash :: "pyval \<Rightarrow> pyval"
  image_url_default_arg :: pyval
  image_url_default_args :: "error + pyval"
  records_defaults :: records
  RegistrationForm_validate :: "(string \<Rightarrow> pyval) \<Rightarrow> bool"
  RecordForm_validate :: "(string \<Rightarrow> pyval) \<Rightarrow> bool"
  UserEditForm_validate :: "(string \<Rightarrow> pyval) \<Rightarrow> bool"

section \<open>Requests, responses and state\<close>

record request =
  is_post :: bool
  cookies :: "string \<rightharpoonup> string"
  json_data :: "string \<rightharpoonup> pyval"
  form_data :: "string \<Rightarrow> pyval"

text \<open>
  A response is a 302 with its location and the cookies it sets, a rendered
  template, or a JSON object.
\<close>

datatype response =
    Redirect string "(string \<times> pyval) list"
  | Render string
  | Jsonify "(string \<times> pyval) list"

text \<open>
  The tables with their id sequences, the process flag behind
  \<^verbatim>\<open>before_first_request\<close>, and the requesting client's session, flashed messages
  and \<^verbatim>\<open>g.user\<close>.
\<close>

record state =
  users_tbl :: "users list"
  mods_tbl :: "mods list"
  records_tbl :: "records list"
  users_seq :: nat
  mods_seq :: nat
  records_seq :: nat
  got_first_request :: bool
  session :: "string \<rightharpoonup> pyval"
  flashes :: "(string \<times> string) list"
  g_user :: "users option"

definition CURR_USER_KEY :: string where
  "CURR_USER_KEY = ''current_user''"

definition flash :: "string \<Rightarrow> string \<Rightarrow> state \<Rightarrow> state" where
  "flash msg cat st = st\<lparr>flashes := flashes st @ [(msg, cat)]\<rparr>"

text \<open>\<^verbatim>\<open>form.validate_on_submit()\<close>: a POST whose fields pass the form's validators.\<close>

definition validate_on_submit :: "((string \<Rightarrow> pyval) \<Rightarrow> bool) \<Rightarrow> request \<Rightarrow> bool" where
  "validate_on_submit validate req = (is_post req \<and> validate (form_data req))"

section \<open>The store\<close>

text \<open>
  Queries of the views, over the tables as lists in insertion order:
  \<^verbatim>\<open>filter_by(...).first()\<close> is the first matching row or \<open>None\<close>,
  \<^verbatim>\<open>query.get(id)\<close> looks a row up by primary key.
\<close>

definition Users_by_username :: "pyval \<Rightarrow> state \<Rightarrow> users option" where
  "Users_by_username name st = find (\<lambda>u. username u = name) (users_tbl st)"

definition Users_by_id :: "nat \<Rightarrow> state \<Rightarrow> users option" where
  "Users_by_id n st = find (\<lambda>u. users_id u = Some n) (users_tbl st)"

text \<open>\<^verbatim>\<open>Users.query.get(v)\<close> for a value read from the session.\<close>

fun Users_query_get :: "pyval \<Rightarrow> state \<Rightarrow> users option" where
  "Users_query_get (PInt i) st = (if 0 \<le> i then Users_by_id (nat i) st else None)"
| "Users_query_get v st = None"

definition Users_get_or_404 :: "nat \<Rightarrow> state \<Rightarrow> error + users" where
  "Users_get_or_404 n st = (case Users_by_id n st of None \<Rightarrow> Inl NotFound404 | Some u \<Rightarrow> Inr u)"

definition Mods_by_file_id :: "pyval \<Rightarrow> state \<Rightarrow> mods option" where
  "Mods_by_file_id fid st = find (\<lambda>m. file_id m = fid) (mods_tbl st)"

definition Records_by_id :: "nat \<Rightarrow> state \<Rightarrow> records option" where
  "Records_by_id n st = find (\<lambda>r. records_id r = Some n) (records_tbl st)"

definition Records_get_or_404 :: "nat \<Rightarrow> state \<Rightarrow> error + records" where
  "Records_get_or_404 n st =
     (case Records_by_id n st of None \<Rightarrow> Inl NotFound404 | Some r \<Rightarrow> Inr r)"

text \<open>\<^verbatim>\<open>Mods.query.filter_by(id=mod_id).delete()\<close> and the same on \<^verbatim>\<open>Records\<close>.\<close>

definition Mods_delete_by_id :: "nat \<Rightarrow> state \<Rightarrow> state" where
  "Mods_delete_by_id n st = st\<lparr>mods_tbl := filter (\<lambda>m. mods_id m \<noteq> Some n) (mods_tbl st)\<rparr>"

definition Records_delete_by_id :: "nat \<Rightarrow> state \<Rightarrow> state" where
  "Records_delete_by_id n st =
     st\<lparr>records_tbl := filter (\<lambda>r. records_id r \<noteq> Some n) (records_tbl st)\<rparr>"

text \<open>
  Modelled from the spec: the table declarations of \<^verbatim>\<open>models.py\<close> are not among
  the sources. The spec's data model makes the username a unique key of a User,
  the archive file identifier a unique key of a Mod, and allows at most one
  Record per (user, mod) pair. Committing a new object inserts it under the next
  id of its table's sequence and returns the object with that id; a commit that
  violates the unique key raises \<^verbatim>\<open>IntegrityError\<close> and inserts nothing.
\<close>

definition commit_new_user :: "users \<Rightarrow> state \<Rightarrow> error + (users \<times> state)" where
  "commit_new_user new st =
     (if list_ex (\<lambda>u. username u = username new) (users_tbl st) then Inl IntegrityError
      else (let u = new\<lparr>users_id := Some (users_seq st)\<rparr>
            in Inr (u, st\<lparr>users_tbl := users_tbl st @ [u], users_seq := Suc (users_seq st)\<rparr>)))"

definition commit_new_mod :: "mods \<Rightarrow> state \<Rightarrow> error + (mods \<times> state)" where
  "commit_new_mod new st =
     (if list_ex (\<lambda>m. file_id m = file_id new) (mods_tbl st) then Inl IntegrityError
      else (let m = new\<lparr>mods_id := Some (mods_seq st)\<rparr>
            in Inr (m, st\<lparr>mods_tbl := mods_tbl st @ [m], mods_seq := Suc (mods_seq st)\<rparr>)))"

definition commit_new_record :: "records \<Rightarrow> state \<Rightarrow> error + (records \<times> state)" where
  "commit_new_record new st =
     (if list_ex (\<lambda>r. user_id r = user_id new \<and> mod_id r = mod_id new) (records_tbl st)
      then Inl IntegrityError
      else (let r = new\<lparr>records_id := Some (records_seq st)\<rparr>
            in Inr (r, st\<lparr>records_tbl := records_tbl st @ [r],
                            records_seq := Suc (records_seq st)\<rparr>)))"

text \<open>
  Committing a changed object that was loaded from the store writes it over the
  row with its primary key.
\<close>

definition commit_user :: "users \<Rightarrow> state \<Rightarrow> state" where
  "commit_user u st =
     st\<lparr>users_tbl := map (\<lambda>x. if users_id x = users_id u then u else x) (users_tbl st)\<rparr>"

definition commit_record :: "records \<Rightarrow> state \<Rightarrow> state" where
  "commit_record r st =
     st\<lparr>records_tbl := map (\<lambda>x. if records_id x = records_id r then r else x) (records_tbl st)\<rparr>"

text \<open>
  Modelled from the spec: \<^verbatim>\<open>Users.signup\<close> is defined in \<^verbatim>\<open>models.py\<close>, which is not
  among the sources. By the spec's contract of \<^verbatim>\<open>register\<close> it builds the user
  from the username, the email and the avatar URL and stores only a one-way
  hash of the password.
\<close>

definition Users_signup :: "decls \<Rightarrow> pyval \<Rightarrow> pyval \<Rightarrow> pyval \<Rightarrow> pyval \<Rightarrow> users" where
  "Users_signup cfg name mail pw img =
     \<lparr>users_id = None, username = name, email = mail, password = pw_hash cfg pw,
      image_url = img\<rparr>"

text \<open>\<^verbatim>\<open>Records(user_id=..., mod_id=...)\<close>: the other columns at their declared defaults.\<close>

definition Records_new :: "decls \<Rightarrow> nat option \<Rightarrow> nat \<Rightarrow> records" where
  "Records_new cfg uid mid = (records_defaults cfg)\<lparr>records_id := None, user_id := uid, mod_id := mid\<rparr>"

section \<open>Sessions\<close>

definition do_login :: "users \<Rightarrow> state \<Rightarrow> state" where
  "do_login user st = st\<lparr>session := (session st)(CURR_USER_KEY \<mapsto> id_val (users_id user))\<rparr>"

definition do_logout :: "state \<Rightarrow> state" where
  "do_logout st =
     (if session st CURR_USER_KEY \<noteq> None then st\<lparr>session := (session st)(CURR_USER_KEY := None)\<rparr>
      else st)"

definition check_cookies :: "request \<Rightarrow> state \<Rightarrow> state" where
  "check_cookies req st =
     (case cookies req ''user'' of
        Some name \<Rightarrow>
          (case Users_by_username (PStr name) st of
             Some user \<Rightarrow> do_login user st
           | None \<Rightarrow> st)
      | None \<Rightarrow> do_logout st)"

definition global_user :: "state \<Rightarrow> state" where
  "global_user st =
     (case session st CURR_USER_KEY of
        Some v \<Rightarrow> st\<lparr>g_user := Users_query_get v st\<rparr>
      | None \<Rightarrow> st\<lparr>g_user := None\<rparr>)"

text \<open>
  What Flask runs before the view of a request: the functions registered with
  \<^verbatim>\<open>before_first_request\<close> if the process has served no request yet, then the
  functions registered with \<^verbatim>\<open>before_request\<close>.
\<close>

definition preprocess_request :: "request \<Rightarrow> state \<Rightarrow> state" where
  "preprocess_request req st =
     global_user
       (if got_first_request st then st
        else (check_cookies req st)\<lparr>got_first_request := True\<rparr>)"

section \<open>Views\<close>

text \<open>
  Each view takes the request and the state left by \<open>preprocess_request\<close> and
  returns the response with the new state, or the exception that leaves it.
\<close>

subsection \<open>Registration\<close>

definition register :: "decls \<Rightarrow> request \<Rightarrow> state \<Rightarrow> error + (response \<times> state)" where
  "register cfg req st =
     (if cookies req ''user'' \<noteq> None then Inr (Redirect ''/search'' [], st)
      else if validate_on_submit (RegistrationForm_validate cfg) req then
        (let new_user = Users_signup cfg
               (form_data req ''username'')
               (form_data req ''email'')
               (form_data req ''password'')
               (if truthy (form_data req ''image_url'') then form_data req ''image_url''
                else image_url_default_arg cfg)
         in case commit_new_user new_user st of
              Inr (u, st') \<Rightarrow>
                Inr (Redirect ''/search'' [(''user'', username u), (''password'', password u)],
                     do_login u st')
            | Inl IntegrityError \<Rightarrow>
                Inr (Render ''register.html'', flash ''Username already taken'' ''danger'' st)
            | Inl e \<Rightarrow> Inl e)
      else Inr (Render ''register.html'', st))"

subsection \<open>Mods\<close>

definition create_mod :: "(string \<rightharpoonup> pyval) \<Rightarrow> error + mods" where
  "create_mod m_json =
     bind_err (getitem m_json ''dir'') (\<lambda>d.
     bind_err (py_partition d) (\<lambda>parts.
     (let cat = fst parts;
          rat = (case m_json ''rating'' of Some v \<Rightarrow> v | None \<Rightarrow> PInt 0);
          votes = (case m_json ''votes'' of Some v \<Rightarrow> v | None \<Rightarrow> PInt 0)
      in
     bind_err (getitem m_json ''title'') (\<lambda>t.
     bind_err (getitem m_json ''id'') (\<lambda>fid.
     bind_err (getitem m_json ''url'') (\<lambda>u.
     bind_err (getitem m_json ''description'') (\<lambda>de.
     bind_err (getitem m_json ''date'') (\<lambda>da.
     bind_err (getitem m_json ''author'') (\<lambda>a.
       Inr \<lparr>mods_id = None, title = t, file_id = fid, url = u, description = de,
            date_uploaded = da, author = a, category = cat, rating = rat,
            rating_count = votes\<rparr>)))))))))"

definition add_mod :: "request \<Rightarrow> state \<Rightarrow> error + (response \<times> state)" where
  "add_mod req st =
     (if g_user st = None then
        Inr (Jsonify [(''status'', PStr ''Unauthorized access.'')],
             flash ''Please login to add a mod.'' ''danger'' st)
      else
        bind_err (getitem (json_data req) ''id'') (\<lambda>fid.
          (case Mods_by_file_id fid st of
             Some mod_check \<Rightarrow>
               Inr (Jsonify [(''status'', PStr ''Already pulled.''),
                             (''mod_id'', id_val (mods_id mod_check))], st)
           | None \<Rightarrow>
               bind_err (create_mod (json_data req)) (\<lambda>new.
               bind_err (commit_new_mod new st) (\<lambda>(m, st').
                 Inr (Jsonify [(''status'', PStr ''Pulled!''),
                               (''mod_id'', id_val (mods_id m))], st'))))))"

definition delete_mod :: "nat \<Rightarrow> state \<Rightarrow> error + (response \<times> state)" where
  "delete_mod mid st =
     (if g_user st \<noteq> None then
        Inr (Redirect ''/mods'' [],
             flash ''Mod successfully removed.'' ''message'' (Mods_delete_by_id mid st))
      else Inr (Redirect ''/mods'' [], st))"

subsection \<open>Records\<close>

definition add_record :: "decls \<Rightarrow> nat \<Rightarrow> state \<Rightarrow> error + (response \<times> state)" where
  "add_record cfg mid st =
     (case g_user st of
        Some u \<Rightarrow>
          (let record = Records_new cfg (users_id u) mid
           in case commit_new_record record st of
                Inr (r, st') \<Rightarrow>
                  Inr (Jsonify [(''status'', PStr ''Added!''),
                                (''record_id'', id_val (records_id r))], st')
              | Inl IntegrityError \<Rightarrow>
                  Inr (Jsonify [(''status'', PStr ''Already exists.''),
                                (''record_id'', id_val (records_id record))], st)
              | Inl e \<Rightarrow> Inl e)
      | None \<Rightarrow> Inr (Jsonify [(''status'', PStr ''Not logged in.'')], st))"

definition edit_record :: "decls \<Rightarrow> nat \<Rightarrow> request \<Rightarrow> state \<Rightarrow> error + (response \<times> state)" where
  "edit_record cfg rid req st =
     (if g_user st = None then
        Inr (Redirect (''/records/'' @ str_nat rid) [],
             flash ''Unauthorized access.'' ''danger'' st)
      else
        bind_err (Records_get_or_404 rid st) (\<lambda>record.
          if validate_on_submit (RecordForm_validate cfg) req then
            (let record' = record
                   \<lparr>user_notes := PTuple [form_data req ''user_notes''],
                    user_review := form_data req ''user_review'',
                    now_playing := form_data req ''now_playing'',
                    play_status := form_data req ''play_status''\<rparr>
             in Inr (Redirect (''/records/'' @ str_nat rid) [], commit_record record' st))
          else Inr (Render ''record_edit.html'', st)))"

definition delete_record :: "nat \<Rightarrow> state \<Rightarrow> error + (response \<times> state)" where
  "delete_record rid st =
     (case Records_by_id rid st of
        None \<Rightarrow> Inl (AttributeError ''mod_id'')
      | Some r \<Rightarrow>
          (let m = mod_id r;
               st' = (if g_user st \<noteq> None
                      then flash ''Record successfully deleted.'' ''message''
                             (Records_delete_by_id rid st)
                      else flash ''Unauthorized access.'' ''message'' st)
           in Inr (Redirect (''/mods/'' @ str_nat m) [], st')))"

subsection \<open>Users\<close>

definition edit_user :: "decls \<Rightarrow> nat \<Rightarrow> request \<Rightarrow> state \<Rightarrow> error + (response \<times> state)" where
  "edit_user cfg uid req st =
     (case g_user st of
        None \<Rightarrow>
          Inr (Redirect (''/users/'' @ str_nat uid) [],
               flash ''Unauthorized access.'' ''danger'' st)
      | Some me \<Rightarrow>
          (let st1 = (if users_id me \<noteq> Some uid
                      then flash ''Unauthorized access.'' ''danger'' st else st)
           in bind_err (Users_get_or_404 uid st1) (\<lambda>user.
                if validate_on_submit (UserEditForm_validate cfg) req then
                  bind_err (if truthy (form_data req ''image_url'')
                            then Inr (form_data req ''image_url'')
                            else image_url_default_args cfg) (\<lambda>img.
                    (let user' = user\<lparr>email := PTuple [form_data req ''email''],
                                       image_url := img\<rparr>
                     in Inr (Redirect (''/users/'' @ str_nat uid) [], commit_user user' st1)))
                else Inr (Render ''user_edit.html'', st1))))"

section \<open>Example data\<close>

text \<open>Concrete declarations, requests and states for the witnesses.\<close>

definition ex_decls :: decls where
  "ex_decls =
     \<lparr>pw_hash = (\<lambda>p. case p of PStr s \<Rightarrow> PStr (''hashed:'' @ s) | v \<Rightarrow> PNone),
      image_url_default_arg = PStr ''/static/images/default-pic.png'',
      image_url_default_args = Inl (AttributeError ''args''),
      records_defaults =
        \<lparr>records_id = None, user_id = None, mod_id = 0, user_notes = PNone,
         user_review = PNone, now_playing = PBool False, play_status = PNone\<rparr>,
      RegistrationForm_validate = (\<lambda>f. True),
      RecordForm_validate = (\<lambda>f. True),
      UserEditForm_validate = (\<lambda>f. True)\<rparr>"

definition ex_mod_json :: "string \<rightharpoonup> pyval" where
  "ex_mod_json =
     [''id'' \<mapsto> PInt 42, ''dir'' \<mapsto> PStr ''levels/doom2'', ''title'' \<mapsto> PStr ''X'',
      ''url'' \<mapsto> PStr ''u'', ''description'' \<mapsto> PStr ''d'', ''date'' \<mapsto> PStr ''2020'',
      ''author'' \<mapsto> PStr ''a'']"

definition ex_alice :: users where
  "ex_alice = \<lparr>users_id = Some 1, username = PStr ''alice'', email = PStr ''alice@example.org'',
               password = PStr ''hashed:pw1'', image_url = PStr ''a.png''\<rparr>"

definition ex_bob :: users where
  "ex_bob = \<lparr>users_id = Some 2, username = PStr ''bob'', email = PStr ''bob@example.org'',
             password = PStr ''hashed:pw2'', image_url = PStr ''b.png''\<rparr>"

definition ex_mod :: mods where
  "ex_mod = \<lparr>mods_id = Some 5, title = PStr ''X'', file_id = PInt 42, url = PStr ''u'',
             description = PStr ''d'', date_uploaded = PStr ''2020'', author = PStr ''a'',
             category = ''levels'', rating = PInt 0, rating_count = PInt 0\<rparr>"

definition ex_record :: records where
  "ex_record = \<lparr>records_id = Some 7, user_id = Some 1, mod_id = 5, user_notes = PNone,
                user_review = PNone, now_playing = PBool False, play_status = PNone\<rparr>"

definition ex_empty :: state where
  "ex_empty = \<lparr>users_tbl = [], mods_tbl = [], records_tbl = [], users_seq = 1, mods_seq = 1,
               records_seq = 1, got_first_request = True, session = Map.empty, flashes = [],
               g_user = None\<rparr>"

text \<open>Two users, one mod, one record of alice's; an anonymous request.\<close>

definition ex_state :: state where
  "ex_state = \<lparr>users_tbl = [ex_alice, ex_bob], mods_tbl = [ex_mod], records_tbl = [ex_record],
               users_seq = 3, mods_seq = 6, records_seq = 8, got_first_request = True,
               session = Map.empty, flashes = [], g_user = None\<rparr>"

definition ex_add_mod_request :: request where
  "ex_add_mod_request = \<lparr>is_post = True, cookies = Map.empty, json_data = ex_mod_json,
                         form_data = (\<lambda>k. PNone)\<rparr>"

definition ex_cookie_request :: request where
  "ex_cookie_request = \<lparr>is_post = False, cookies = [''user'' \<mapsto> ''alice''],
                        json_data = Map.empty, form_data = (\<lambda>k. PNone)\<rparr>"

definition ex_register_request :: request where
  "ex_register_request =
     \<lparr>is_post = True, cookies = Map.empty, json_data = Map.empty,
      form_data = (\<lambda>k. if k = ''username'' then PStr ''alice''
                        else if k = ''email'' then PStr ''alice@example.org''
                        else if k = ''password'' then PStr ''pw1''
                        else PStr '''')\<rparr>"

text \<open>The same submission, sent with the cookies the first response set.\<close>

definition ex_register_again :: request where
  "ex_register_again =
     ex_register_request\<lparr>cookies := [''user'' \<mapsto> ''alice'', ''password'' \<mapsto> ''hashed:pw1'']\<rparr>"

definition ex_registered :: state where
  "ex_registered =
     ex_empty\<lparr>users_tbl :=
                [\<lparr>users_id = Some 1, username = PStr ''alice'', email = PStr ''alice@example.org'',
                  password = PStr ''hashed:pw1'',
                  image_url = PStr ''/static/images/default-pic.png''\<rparr>],
              users_seq := 2,
              session := [CURR_USER_KEY \<mapsto> PInt 1]\<rparr>"

definition ex_edit_user_request :: request where
  "ex_edit_user_request =
     \<lparr>is_post = True, cookies = [''user'' \<mapsto> ''alice''], json_data = Map.empty,
      form_data = (\<lambda>k. if k = ''email'' then PStr ''mallory@example.org''
                        else if k = ''image_url'' then PStr ''m.png''
                        else PNone)\<rparr>"


section \<open>Key invariants of the store\<close>

text \<open>
  The primary keys of the users are pairwise different and below the next value
  of the sequence.
\<close>

definition users_keys_ok :: "state \<Rightarrow> bool" where
  "users_keys_ok st =
     (distinct (map users_id (users_tbl st))
      \<and> list_all (\<lambda>u. \<exists>n. users_id u = Some n \<and> n < users_seq st) (users_tbl st))"

section \<open>Reading a decimal rendering back\<close>

text \<open>
  The inverse of \<open>str_nat\<close>, used only to state that different ids are rendered
  as different paths.
\<close>

definition digit_val :: "char \<Rightarrow> nat" where
  "digit_val c = of_char c - of_char CHR ''0''"

definition read_nat :: "string \<Rightarrow> nat" where
  "read_nat s = foldl (\<lambda>a c. 10 * a + digit_val c) 0 s"

section \<open>Auxiliary facts\<close>

lemmas ex_defs = ex_state_def ex_empty_def ex_alice_def ex_bob_def ex_mod_def ex_record_def
  ex_decls_def

lemma find_filter_distinct:
  "distinct (map f xs) \<Longrightarrow> find (\<lambda>x. f x = a) xs = Some m \<Longrightarrow> filter (\<lambda>x. f x = a) xs = [m]"
proof (induction xs)
  case Nil
  then show ?case by simp
next
  case (Cons x xs)
  show ?case
  proof (cases "f x = a")
    case True
    with Cons.prems have "m = x" by simp
    moreover from True Cons.prems have "\<forall>y\<in>set xs. f y \<noteq> a" by (auto simp: image_iff)
    then have "filter (\<lambda>x. f x = a) xs = []" by (simp add: filter_empty_conv)
    ultimately show ?thesis using True by simp
  next
    case False
    with Cons show ?thesis by simp
  qed
qed

lemma find_distinct_mem:
  "distinct (map f xs) \<Longrightarrow> x \<in> set xs \<Longrightarrow> find (\<lambda>y. f y = f x) xs = Some x"
  by (induction xs) auto

lemma find_Some_mem: "find P xs = Some x \<Longrightarrow> x \<in> set xs \<and> P x"
  by (induction xs) (auto split: if_splits)

lemma partition_chr_fst_no_sep: "c \<notin> set (fst (partition_chr c s))"
  by (induction s) (auto split: prod.splits)

lemma partition_chr_sep:
  "c \<in> set s \<Longrightarrow> s = fst (partition_chr c s) @ c # snd (snd (partition_chr c s))"
  by (induction s) (auto split: prod.splits)

lemma partition_chr_no_sep: "c \<notin> set s \<Longrightarrow> partition_chr c s = (s, [], [])"
  by (induction s) auto

lemma create_mod_ok:
  assumes "m_json ''dir'' = Some (PStr d)"
    and "m_json ''title'' = Some t" and "m_json ''id'' = Some fid"
    and "m_json ''url'' = Some u" and "m_json ''description'' = Some de"
    and "m_json ''date'' = Some da" and "m_json ''author'' = Some a"
  shows "create_mod m_json =
     Inr \<lparr>mods_id = None, title = t, file_id = fid, url = u, description = de,
          date_uploaded = da, author = a, category = fst (partition_chr CHR ''/'' d),
          rating = (case m_json ''rating'' of Some v \<Rightarrow> v | None \<Rightarrow> PInt 0),
          rating_count = (case m_json ''votes'' of Some v \<Rightarrow> v | None \<Rightarrow> PInt 0)\<rparr>"
  using assms by (simp add: create_mod_def bind_err_def getitem_def)

lemma digit_val_chr: "d < 10 \<Longrightarrow> digit_val (digit_chr d) = d"
  by (auto simp: digit_val_def digit_chr_def)

lemma read_nat_str_nat: "read_nat (str_nat n) = n"
proof (induction n rule: str_nat.induct)
  case (1 n)
  show ?case
  proof (cases "n < 10")
    case True
    then show ?thesis by (simp add: str_nat.simps [of n] read_nat_def digit_val_chr)
  next
    case False
    with 1 have "read_nat (str_nat (n div 10)) = n div 10" by simp
    with False show ?thesis
      by (simp add: str_nat.simps [of n] read_nat_def digit_val_chr)
  qed
qed

lemma str_nat_inj: "str_nat a = str_nat b \<Longrightarrow> a = b"
proof -
  assume "str_nat a = str_nat b"
  then have "read_nat (str_nat a) = read_nat (str_nat b)" by (rule arg_cong)
  then show "a = b" by (simp only: read_nat_str_nat)
qed

section \<open>Importing a mod\<close>

text \<open>
  Claim C8. For a search-result JSON object that has the keys \<^verbatim>\<open>create_mod\<close>
  reads and whose \<^verbatim>\<open>dir\<close> is a string, \<open>create_mod\<close> returns a Mod whose category
  is the text of \<^verbatim>\<open>dir\<close> before the first \<^verbatim>\<open>/\<close>: it holds no \<^verbatim>\<open>/\<close>, it is followed
  in \<^verbatim>\<open>dir\<close> by a \<^verbatim>\<open>/\<close> when \<^verbatim>\<open>dir\<close> has one, and it is the whole of \<^verbatim>\<open>dir\<close>
  otherwise. The Mod's rating is 0 when the key \<^verbatim>\<open>rating\<close> is absent and its rating
  count is 0 when the key \<^verbatim>\<open>votes\<close> is absent; a key that is present gives its
  value. The witness is the spec's example: \<^verbatim>\<open>dir\<close> \<^verbatim>\<open>levels/doom2\<close> gives the category
  \<^verbatim>\<open>levels\<close>.
\<close>

theorem create_mod_category_and_defaults:
  assumes "m_json ''dir'' = Some (PStr d)"
    and "m_json ''title'' \<noteq> None" and "m_json ''id'' \<noteq> None"
    and "m_json ''url'' \<noteq> None" and "m_json ''description'' \<noteq> None"
    and "m_json ''date'' \<noteq> None" and "m_json ''author'' \<noteq> None"
  shows "\<exists>m. create_mod m_json = Inr m
           \<and> CHR ''/'' \<notin> set (category m)
           \<and> (if CHR ''/'' \<in> set d then \<exists>rest. d = category m @ ''/'' @ rest
               else category m = d)
           \<and> rating m = (case m_json ''rating'' of None \<Rightarrow> PInt 0 | Some v \<Rightarrow> v)
           \<and> rating_count m = (case m_json ''votes'' of None \<Rightarrow> PInt 0 | Some v \<Rightarrow> v)"
proof -
  from assms obtain t fid u de da a where keys:
    "m_json ''title'' = Some t" "m_json ''id'' = Some fid" "m_json ''url'' = Some u"
    "m_json ''description'' = Some de" "m_json ''date'' = Some da" "m_json ''author'' = Some a"
    by auto
  let ?p = "partition_chr CHR ''/'' d"
  have sep: "CHR ''/'' \<in> set d \<Longrightarrow> d = fst ?p @ ''/'' @ snd (snd ?p)"
    using partition_chr_sep [of "CHR ''/''" d] by simp
  have nosep: "CHR ''/'' \<notin> set d \<Longrightarrow> fst ?p = d"
    by (simp add: partition_chr_no_sep)
  show ?thesis
    unfolding create_mod_ok [OF assms(1) keys]
    using partition_chr_fst_no_sep [of "CHR ''/''" d] sep nosep
    by (auto split: option.splits)
qed

theorem create_mod_category_and_defaults_witness:
  "ex_mod_json ''dir'' = Some (PStr ''levels/doom2'')
   \<and> ex_mod_json ''rating'' = None \<and> ex_mod_json ''votes'' = None
   \<and> (\<exists>m. create_mod ex_mod_json = Inr m \<and> category m = ''levels''
          \<and> CHR ''/'' \<notin> set (category m)
          \<and> (\<exists>rest. ''levels/doom2'' = category m @ ''/'' @ rest)
          \<and> rating m = PInt 0 \<and> rating_count m = PInt 0)"
proof -
  have d: "ex_mod_json ''dir'' = Some (PStr ''levels/doom2'')"
    and k: "ex_mod_json ''title'' \<noteq> None" "ex_mod_json ''id'' \<noteq> None"
      "ex_mod_json ''url'' \<noteq> None" "ex_mod_json ''description'' \<noteq> None"
      "ex_mod_json ''date'' \<noteq> None" "ex_mod_json ''author'' \<noteq> None"
    and r: "ex_mod_json ''rating'' = None" "ex_mod_json ''votes'' = None"
    by (simp_all add: ex_mod_json_def)
  from create_mod_category_and_defaults [OF d k] obtain m where m:
    "create_mod ex_mod_json = Inr m" "CHR ''/'' \<notin> set (category m)"
    "\<exists>rest. ''levels/doom2'' = category m @ ''/'' @ rest"
    "rating m = PInt 0" "rating_count m = PInt 0"
    by (auto simp: r)
  have "create_mod ex_mod_json = Inr \<lparr>mods_id = None, title = PStr ''X'', file_id = PInt 42,
      url = PStr ''u'', description = PStr ''d'', date_uploaded = PStr ''2020'',
      author = PStr ''a'', category = ''levels'', rating = PInt 0, rating_count = PInt 0\<rparr>"
    by (simp add: create_mod_def bind_err_def getitem_def ex_mod_json_def)
  with m(1) have "category m = ''levels''" by auto
  with m d r show ?thesis by blast
qed

section \<open>Deleting a record\<close>

text \<open>
  Claim C9. When a Record with the given id exists, \<open>delete_record\<close> reads the
  Record's mod id first and answers with a redirect to \<^verbatim>\<open>/mods/<mod id>\<close>. For an
  authenticated caller no row with that id is left in the state the redirect is
  returned with (the other rows are kept); for an anonymous caller the table is
  unchanged and the redirect is the same.
\<close>

theorem delete_record_redirects_to_mod:
  assumes "Records_by_id rid st = Some r"
  shows "\<exists>st'. delete_record rid st = Inr (Redirect (''/mods/'' @ str_nat (mod_id r)) [], st')
           \<and> (if g_user st = None then records_tbl st' = records_tbl st
               else Records_by_id rid st' = None
                    \<and> records_tbl st' = filter (\<lambda>x. records_id x \<noteq> Some rid) (records_tbl st))"
  using assms
  by (simp add: delete_record_def Let_def flash_def Records_delete_by_id_def
      Records_by_id_def find_None_iff)

theorem delete_record_redirects_to_mod_witness:
  "Records_by_id 7 (ex_state\<lparr>g_user := Some ex_bob\<rparr>) = Some ex_record
   \<and> (\<exists>st'. delete_record 7 (ex_state\<lparr>g_user := Some ex_bob\<rparr>) = Inr (Redirect ''/mods/5'' [], st')
          \<and> Records_by_id 7 st' = None \<and> records_tbl st' = [])"
proof -
  have h: "Records_by_id 7 (ex_state\<lparr>g_user := Some ex_bob\<rparr>) = Some ex_record"
    by (simp add: Records_by_id_def ex_defs)
  have s: "str_nat 5 = ''5''" by (simp add: str_nat.simps digit_chr_def)
  show ?thesis
    using h delete_record_redirects_to_mod [OF h]
    by (simp add: s ex_defs)
qed

text \<open>
  Claim C10. When no Record row has the given id, \<open>delete_record\<close> raises
  \<^verbatim>\<open>AttributeError\<close> on reading \<^verbatim>\<open>mod_id\<close> of the absent lookup result, whoever the
  caller is (\<open>who\<close> is any value of \<^verbatim>\<open>g.user\<close>, anonymous or authenticated): the
  fault comes before the authentication check and no not-found response is
  produced.
\<close>

theorem delete_record_missing_faults:
  assumes "\<forall>r \<in> set (records_tbl st). records_id r \<noteq> Some rid"
  shows "delete_record rid (st\<lparr>g_user := who\<rparr>) = Inl (AttributeError ''mod_id'')"
proof -
  from assms have "Records_by_id rid (st\<lparr>g_user := who\<rparr>) = None"
    by (simp add: Records_by_id_def find_None_iff)
  then show ?thesis by (simp add: delete_record_def)
qed

theorem delete_record_missing_faults_witness:
  "list_all (\<lambda>r. records_id r \<noteq> Some 8) (records_tbl ex_state)
   \<and> delete_record 8 (ex_state\<lparr>g_user := None\<rparr>) = Inl (AttributeError ''mod_id'')
   \<and> delete_record 8 (ex_state\<lparr>g_user := Some ex_alice\<rparr>) = Inl (AttributeError ''mod_id'')"
proof -
  have h: "\<forall>r \<in> set (records_tbl ex_state). records_id r \<noteq> Some 8"
    by (simp add: ex_defs)
  show ?thesis
    using h delete_record_missing_faults [OF h, of None]
      delete_record_missing_faults [OF h, of "Some ex_alice"]
    by (simp add: list_all_iff)
qed

section \<open>Importing a mod that is already stored\<close>

lemma Mods_by_file_id_unique:
  assumes "distinct (map file_id (mods_tbl st))" and "m \<in> set (mods_tbl st)"
  shows "Mods_by_file_id (file_id m) st = Some m"
  using assms by (simp add: Mods_by_file_id_def find_distinct_mem)

text \<open>
  Claim C3. For an authenticated caller and a payload whose \<^verbatim>\<open>id\<close> is the file
  identifier of a stored Mod \<open>m\<close>, in a store that keeps file identifiers unique,
  \<open>add_mod\<close> answers \<^verbatim>\<open>Already pulled.\<close> with the id of \<open>m\<close> and returns the state
  as it was: no row is created, and \<open>m\<close> is the one Mod row with that file
  identifier afterwards.
\<close>

theorem add_mod_already_imported:
  assumes "g_user st = Some me"
    and "json_data req ''id'' = Some fid"
    and "m \<in> set (mods_tbl st)" and "file_id m = fid"
    and "distinct (map file_id (mods_tbl st))"
  shows "add_mod req st =
           Inr (Jsonify [(''status'', PStr ''Already pulled.''), (''mod_id'', id_val (mods_id m))], st)
         \<and> filter (\<lambda>x. file_id x = fid) (mods_tbl st) = [m]"
proof -
  have found: "Mods_by_file_id fid st = Some m"
    using Mods_by_file_id_unique [OF assms(5) assms(3)] assms(4) by simp
  then have "filter (\<lambda>x. file_id x = fid) (mods_tbl st) = [m]"
    using assms(5) by (simp add: Mods_by_file_id_def find_filter_distinct)
  moreover have "add_mod req st =
      Inr (Jsonify [(''status'', PStr ''Already pulled.''), (''mod_id'', id_val (mods_id m))], st)"
    using assms(1,2) found by (simp add: add_mod_def bind_err_def getitem_def)
  ultimately show ?thesis by simp
qed

theorem add_mod_already_imported_witness:
  "g_user (ex_state\<lparr>g_user := Some ex_alice\<rparr>) = Some ex_alice
   \<and> json_data ex_add_mod_request ''id'' = Some (PInt 42)
   \<and> file_id ex_mod = PInt 42
   \<and> add_mod ex_add_mod_request (ex_state\<lparr>g_user := Some ex_alice\<rparr>) =
       Inr (Jsonify [(''status'', PStr ''Already pulled.''), (''mod_id'', PInt 5)],
            ex_state\<lparr>g_user := Some ex_alice\<rparr>)
   \<and> filter (\<lambda>x. file_id x = PInt 42) (mods_tbl (ex_state\<lparr>g_user := Some ex_alice\<rparr>)) = [ex_mod]"
proof -
  let ?st = "ex_state\<lparr>g_user := Some ex_alice\<rparr>"
  have a: "g_user ?st = Some ex_alice" by simp
  have b: "json_data ex_add_mod_request ''id'' = Some (PInt 42)"
    by (simp add: ex_add_mod_request_def ex_mod_json_def)
  have c: "ex_mod \<in> set (mods_tbl ?st)" by (simp add: ex_state_def)
  have d: "file_id ex_mod = PInt 42" by (simp add: ex_mod_def)
  have e: "distinct (map file_id (mods_tbl ?st))" by (simp add: ex_state_def)
  have i: "id_val (mods_id ex_mod) = PInt 5" by (simp add: ex_mod_def)
  show ?thesis
    using a b d add_mod_already_imported [OF a b c d e] by (simp add: i)
qed

section \<open>Resolving the current user\<close>

lemma Users_by_id_unique:
  assumes "distinct (map users_id (users_tbl st))" and "u \<in> set (users_tbl st)"
    and "users_id u = Some n"
  shows "Users_by_id n st = Some u"
  using find_distinct_mem [OF assms(1,2)] assms(3) by (simp add: Users_by_id_def)

lemma global_user_no_session:
  "session st CURR_USER_KEY = None \<Longrightarrow> g_user (global_user st) = None"
  by (simp add: global_user_def)

lemma check_cookies_tables [simp]:
  "users_tbl (check_cookies req st) = users_tbl st"
  by (simp add: check_cookies_def do_login_def do_logout_def split: option.splits)

text \<open>
  Claim C5, as amended. For a request that has no session binding and carries the
  cookie \<^verbatim>\<open>user\<close> naming an existing user (in a store whose primary keys are
  unique): when it is the first request the process serves, \<^verbatim>\<open>g.user\<close> is that
  user; on any later request \<^verbatim>\<open>g.user\<close> is \<open>None\<close>, because \<open>check_cookies\<close> is
  registered with \<^verbatim>\<open>before_first_request\<close> and \<open>global_user\<close> reads the session only.
\<close>

theorem cookie_relogin_first_request_only:
  assumes "session st CURR_USER_KEY = None"
    and "cookies req ''user'' = Some name"
    and "Users_by_username (PStr name) st = Some u"
    and "users_id u = Some n"
    and "distinct (map users_id (users_tbl st))"
  shows "g_user (preprocess_request req st) = (if got_first_request st then None else Some u)"
proof (cases "got_first_request st")
  case True
  then show ?thesis
    using assms(1) by (simp add: preprocess_request_def global_user_no_session)
next
  case False
  let ?st1 = "(check_cookies req st)\<lparr>got_first_request := True\<rparr>"
  have mem: "u \<in> set (users_tbl st)"
    using assms(3) find_Some_mem [of _ "users_tbl st" u]
    by (simp add: Users_by_username_def)
  have sess: "session ?st1 CURR_USER_KEY = Some (PInt (int n))"
    using assms(2,3,4) by (simp add: check_cookies_def do_login_def)
  have "Users_by_id n ?st1 = Users_by_id n st"
    by (simp add: Users_by_id_def)
  also have "\<dots> = Some u"
    using Users_by_id_unique [OF assms(5) mem assms(4)] .
  finally have "g_user (global_user ?st1) = Some u"
    using sess by (simp add: global_user_def)
  with False show ?thesis by (simp add: preprocess_request_def)
qed

theorem cookie_relogin_first_request_only_witness:
  "session ex_state CURR_USER_KEY = None
   \<and> cookies ex_cookie_request ''user'' = Some ''alice''
   \<and> Users_by_username (PStr ''alice'') ex_state = Some ex_alice
   \<and> g_user (preprocess_request ex_cookie_request (ex_state\<lparr>got_first_request := False\<rparr>))
       = Some ex_alice
   \<and> g_user (preprocess_request ex_cookie_request ex_state) = None"
proof -
  let ?st0 = "ex_state\<lparr>got_first_request := False\<rparr>"
  have a: "session ex_state CURR_USER_KEY = None" "session ?st0 CURR_USER_KEY = None"
    by (simp_all add: ex_state_def)
  have b: "cookies ex_cookie_request ''user'' = Some ''alice''"
    by (simp add: ex_cookie_request_def)
  have c: "Users_by_username (PStr ''alice'') ex_state = Some ex_alice"
    "Users_by_username (PStr ''alice'') ?st0 = Some ex_alice"
    by (simp_all add: Users_by_username_def ex_defs)
  have d: "users_id ex_alice = Some 1" by (simp add: ex_alice_def)
  have e: "distinct (map users_id (users_tbl ex_state))"
    "distinct (map users_id (users_tbl ?st0))"
    by (simp_all add: ex_defs)
  have f: "got_first_request ex_state" "\<not> got_first_request ?st0"
    by (simp_all add: ex_state_def)
  show ?thesis
    using a(1) b c(1)
      cookie_relogin_first_request_only [OF a(2) b c(2) d e(2)]
      cookie_relogin_first_request_only [OF a(1) b c(1) d e(1)]
    by (simp add: f)
qed

text \<open>
  The claim as stated fails on a request that is not the first: no session
  binding, the cookie names the stored user alice, and the request is anonymous.
\<close>

theorem cookie_relogin_later_request_counterexample:
  "session ex_state CURR_USER_KEY = None
   \<and> cookies ex_cookie_request ''user'' = Some ''alice''
   \<and> Users_by_username (PStr ''alice'') ex_state = Some ex_alice
   \<and> got_first_request ex_state
   \<and> g_user (preprocess_request ex_cookie_request ex_state) = None"
  by (simp add: preprocess_request_def global_user_def Users_by_username_def
      ex_cookie_request_def ex_defs)

section \<open>Registering twice\<close>

lemma commit_new_user_fresh:
  assumes "list_all (\<lambda>u. username u \<noteq> username new) (users_tbl st)"
  shows "commit_new_user new st =
           Inr (new\<lparr>users_id := Some (users_seq st)\<rparr>,
                st\<lparr>users_tbl := users_tbl st @ [new\<lparr>users_id := Some (users_seq st)\<rparr>],
                   users_seq := Suc (users_seq st)\<rparr>)"
  using assms by (simp add: commit_new_user_def Let_def list_ex_iff list_all_iff)

lemma commit_new_user_taken:
  assumes "list_ex (\<lambda>u. username u = username new) (users_tbl st)"
  shows "commit_new_user new st = Inl IntegrityError"
  using assms by (simp add: commit_new_user_def)

lemma filter_none: "list_all (\<lambda>x. \<not> P x) xs \<Longrightarrow> filter P xs = []"
  by (induction xs) auto

text \<open>
  The guard at the head of \<open>register\<close>: a request that carries the \<^verbatim>\<open>user\<close>
  cookie is redirected to \<^verbatim>\<open>/search\<close> and the state is returned as it was, whatever
  the method, the form and the state are.
\<close>

lemma register_with_cookie:
  assumes "cookies req ''user'' \<noteq> None"
  shows "register cfg req st = Inr (Redirect ''/search'' [], st)"
  using assms by (simp add: register_def)

text \<open>
  Claim C4, as amended. For two registration requests that carry no \<^verbatim>\<open>user\<close>
  cookie, pass the form's validation and submit the same username, which no
  stored user has yet: the first is answered with the redirect to \<^verbatim>\<open>/search\<close>
  that sets the cookies and adds the user \<open>u\<close> (holding the hash of the
  submitted password) to the table; the second, served in the state the first
  left, renders the registration form again with the flashed message
  \<^verbatim>\<open>Username already taken\<close>, changes no row, and \<open>u\<close> is the one user row with that
  username afterwards. A registration request \<open>req3\<close> that carries the \<^verbatim>\<open>user\<close>
  cookie is, in every state, answered with the redirect to \<^verbatim>\<open>/search\<close> that sets
  no cookie, and the state is returned as it was: no row is touched and nothing
  is flashed. In particular, sent after the first registration, it leaves \<open>u\<close>
  as the one user row with that username.
\<close>

theorem register_twice_without_cookie:
  assumes "cookies req1 ''user'' = None" and "cookies req2 ''user'' = None"
    and "validate_on_submit (RegistrationForm_validate cfg) req1"
    and "validate_on_submit (RegistrationForm_validate cfg) req2"
    and "form_data req1 ''username'' = name" and "form_data req2 ''username'' = name"
    and "list_all (\<lambda>u. username u \<noteq> name) (users_tbl st)"
    and "cookies req3 ''user'' \<noteq> None"
  shows "(\<exists>u st1 st2.
           register cfg req1 st =
             Inr (Redirect ''/search'' [(''user'', name), (''password'', password u)], st1)
         \<and> password u = pw_hash cfg (form_data req1 ''password'')
         \<and> users_tbl st1 = users_tbl st @ [u]
         \<and> register cfg req2 st1 = Inr (Render ''register.html'', st2)
         \<and> flashes st2 = flashes st1 @ [(''Username already taken'', ''danger'')]
         \<and> users_tbl st2 = users_tbl st1
         \<and> filter (\<lambda>x. username x = name) (users_tbl st2) = [u]
         \<and> register cfg req3 st1 = Inr (Redirect ''/search'' [], st1)
         \<and> filter (\<lambda>x. username x = name) (users_tbl st1) = [u])
       \<and> (\<forall>s. register cfg req3 s = Inr (Redirect ''/search'' [], s))"
proof -
  define img1 where "img1 = (if truthy (form_data req1 ''image_url'') then form_data req1 ''image_url''
                else image_url_default_arg cfg)"
  define img2 where "img2 = (if truthy (form_data req2 ''image_url'') then form_data req2 ''image_url''
                else image_url_default_arg cfg)"
  define new1 where "new1 = Users_signup cfg name (form_data req1 ''email'')
      (form_data req1 ''password'') img1"
  define new2 where "new2 = Users_signup cfg name (form_data req2 ''email'')
      (form_data req2 ''password'') img2"
  define u where "u = new1\<lparr>users_id := Some (users_seq st)\<rparr>"
  define st' where "st' = st\<lparr>users_tbl := users_tbl st @ [u], users_seq := Suc (users_seq st)\<rparr>"
  define st1 where "st1 = do_login u st'"
  define st2 where "st2 = flash ''Username already taken'' ''danger'' st1"
  have n1: "username new1 = name" and n2: "username new2 = name" and un: "username u = name"
    by (simp_all add: new1_def new2_def u_def Users_signup_def)
  have c1: "commit_new_user new1 st = Inr (u, st')"
    using commit_new_user_fresh [of new1 st] assms(7) by (simp add: n1 u_def st'_def)
  have r1: "register cfg req1 st =
      Inr (Redirect ''/search'' [(''user'', name), (''password'', password u)], st1)"
    using assms(1,3,5) c1
    by (simp add: register_def Let_def new1_def img1_def st1_def un [symmetric])
  have t1: "users_tbl st1 = users_tbl st @ [u]"
    by (simp add: st1_def st'_def do_login_def)
  have "list_ex (\<lambda>x. username x = username new2) (users_tbl st1)"
    by (simp add: t1 n2 un)
  then have c2: "commit_new_user new2 st1 = Inl IntegrityError"
    by (rule commit_new_user_taken)
  have r2: "register cfg req2 st1 = Inr (Render ''register.html'', st2)"
    using assms(2,4,6) c2
    by (simp add: register_def Let_def new2_def img2_def st2_def)
  have f2: "flashes st2 = flashes st1 @ [(''Username already taken'', ''danger'')]"
    and t2: "users_tbl st2 = users_tbl st1"
    by (simp_all add: st2_def flash_def)
  have "filter (\<lambda>x. username x = name) (users_tbl st) = []"
    using assms(7) by (simp add: filter_none)
  then have one: "filter (\<lambda>x. username x = name) (users_tbl st2) = [u]"
    by (simp add: t2 t1 un)
  have pw: "password u = pw_hash cfg (form_data req1 ''password'')"
    by (simp add: u_def new1_def Users_signup_def)
  have guard: "\<And>s. register cfg req3 s = Inr (Redirect ''/search'' [], s)"
    using assms(8) by (rule register_with_cookie)
  have one1: "filter (\<lambda>x. username x = name) (users_tbl st1) = [u]"
    using one by (simp add: t2)
  from r1 pw t1 r2 f2 t2 one guard [of st1] one1
  have "\<exists>u st1 st2.
           register cfg req1 st =
             Inr (Redirect ''/search'' [(''user'', name), (''password'', password u)], st1)
         \<and> password u = pw_hash cfg (form_data req1 ''password'')
         \<and> users_tbl st1 = users_tbl st @ [u]
         \<and> register cfg req2 st1 = Inr (Render ''register.html'', st2)
         \<and> flashes st2 = flashes st1 @ [(''Username already taken'', ''danger'')]
         \<and> users_tbl st2 = users_tbl st1
         \<and> filter (\<lambda>x. username x = name) (users_tbl st2) = [u]
         \<and> register cfg req3 st1 = Inr (Redirect ''/search'' [], st1)
         \<and> filter (\<lambda>x. username x = name) (users_tbl st1) = [u]"
    by blast
  with guard show ?thesis by blast
qed

theorem register_twice_without_cookie_witness:
  "cookies ex_register_request ''user'' = None
   \<and> validate_on_submit (RegistrationForm_validate ex_decls) ex_register_request
   \<and> form_data ex_register_request ''username'' = PStr ''alice''
   \<and> list_all (\<lambda>u. username u \<noteq> PStr ''alice'') (users_tbl ex_empty)
   \<and> cookies ex_register_again ''user'' = Some ''alice''
   \<and> (\<exists>u st1 st2.
         register ex_decls ex_register_request ex_empty =
           Inr (Redirect ''/search'' [(''user'', PStr ''alice''), (''password'', password u)], st1)
       \<and> password u = PStr ''hashed:pw1''
       \<and> users_tbl st1 = [u]
       \<and> register ex_decls ex_register_request st1 = Inr (Render ''register.html'', st2)
       \<and> flashes st2 = flashes st1 @ [(''Username already taken'', ''danger'')]
       \<and> users_tbl st2 = users_tbl st1
       \<and> filter (\<lambda>x. username x = PStr ''alice'') (users_tbl st2) = [u]
       \<and> register ex_decls ex_register_again st1 = Inr (Redirect ''/search'' [], st1)
       \<and> filter (\<lambda>x. username x = PStr ''alice'') (users_tbl st1) = [u])
   \<and> (\<forall>s. register ex_decls ex_register_again s = Inr (Redirect ''/search'' [], s))"
proof -
  have a: "cookies ex_register_request ''user'' = None"
    by (simp add: ex_register_request_def)
  have b: "validate_on_submit (RegistrationForm_validate ex_decls) ex_register_request"
    by (simp add: validate_on_submit_def ex_register_request_def ex_decls_def)
  have c: "form_data ex_register_request ''username'' = PStr ''alice''"
    by (simp add: ex_register_request_def)
  have d: "list_all (\<lambda>u. username u \<noteq> PStr ''alice'') (users_tbl ex_empty)"
    by (simp add: ex_empty_def)
  have e: "pw_hash ex_decls (form_data ex_register_request ''password'') = PStr ''hashed:pw1''"
    by (simp add: ex_register_request_def ex_decls_def)
  have f: "users_tbl ex_empty = []" by (simp add: ex_empty_def)
  have g: "cookies ex_register_again ''user'' = Some ''alice''"
    by (simp add: ex_register_again_def)
  then have g': "cookies ex_register_again ''user'' \<noteq> None" by simp
  note th = register_twice_without_cookie [OF a a b b c c d g', unfolded e f append_Nil]
  from a b c d g th show ?thesis by blast
qed

text \<open>
  The claim as stated fails when the second registration comes from the client
  of the first: it carries the \<^verbatim>\<open>user\<close> cookie the first response set, so
  \<open>register\<close> answers with the redirect to \<^verbatim>\<open>/search\<close> before it looks at the form.
  No conflict is reported (nothing is flashed) and the store keeps its one row.
\<close>

theorem register_again_with_cookie_counterexample:
  "register ex_decls ex_register_request ex_empty =
     Inr (Redirect ''/search'' [(''user'', PStr ''alice''), (''password'', PStr ''hashed:pw1'')],
          ex_registered)
   \<and> register ex_decls ex_register_again ex_registered = Inr (Redirect ''/search'' [], ex_registered)
   \<and> flashes ex_registered = []
   \<and> length (users_tbl ex_registered) = 1"
  by (simp add: register_def validate_on_submit_def Users_signup_def commit_new_user_def
      do_login_def Let_def ex_register_again_def ex_register_request_def ex_registered_def
      ex_empty_def ex_decls_def)

section \<open>Editing a user profile\<close>

lemma str_nat_digit: "n < 10 \<Longrightarrow> str_nat n = [digit_chr n]"
  by (simp add: str_nat.simps)

text \<open>
  What \<open>edit_user\<close> does for an authenticated caller who is not the profile's
  owner: the notice is flashed, but the \<^verbatim>\<open>redirect(...)\<close> of that branch is not
  returned, so a valid submission goes on to overwrite the target's email and
  avatar.
\<close>

lemma edit_user_other_identity:
  assumes "g_user st = Some me" and "users_id me \<noteq> Some uid"
    and "Users_by_id uid st = Some target"
    and "validate_on_submit (UserEditForm_validate cfg) req"
    and "truthy (form_data req ''image_url'')"
  shows "edit_user cfg uid req st =
           Inr (Redirect (''/users/'' @ str_nat uid) [],
                commit_user (target\<lparr>email := PTuple [form_data req ''email''],
                                     image_url := form_data req ''image_url''\<rparr>)
                  (flash ''Unauthorized access.'' ''danger'' st))"
  using assms
  by (simp add: edit_user_def Let_def bind_err_def Users_get_or_404_def Users_by_id_def flash_def)

text \<open>
  Claim C1, evaluated at a failing input. Alice (id 1) submits a valid edit form
  for the profile of bob (id 2): the response is the redirect of a successful
  edit, and bob's row holds the submitted email (as a one-element tuple) and
  avatar.
\<close>

theorem edit_user_other_identity_overwrites:
  "edit_user ex_decls 2 ex_edit_user_request (ex_state\<lparr>g_user := Some ex_alice\<rparr>) =
     Inr (Redirect ''/users/2'' [],
          ex_state\<lparr>g_user := Some ex_alice,
                   flashes := [(''Unauthorized access.'', ''danger'')],
                   users_tbl := [ex_alice,
                                 ex_bob\<lparr>email := PTuple [PStr ''mallory@example.org''],
                                        image_url := PStr ''m.png''\<rparr>]\<rparr>)"
  by (simp add: edit_user_def Let_def bind_err_def Users_get_or_404_def Users_by_id_def
      flash_def commit_user_def validate_on_submit_def str_nat_digit digit_chr_def
      ex_edit_user_request_def ex_defs)

section \<open>Attaching a record twice\<close>

text \<open>
  What \<open>add_record\<close> does when the caller already has a Record for the mod: the
  insert fails, the state is as it was, and the \<^verbatim>\<open>record_id\<close> of the response is
  the id of the object that was not inserted, which is \<open>None\<close>.
\<close>

lemma add_record_duplicate:
  assumes "g_user st = Some me"
    and "list_ex (\<lambda>r. user_id r = users_id me \<and> mod_id r = mid) (records_tbl st)"
  shows "add_record cfg mid st =
           Inr (Jsonify [(''status'', PStr ''Already exists.''), (''record_id'', PNone)], st)"
  using assms by (simp add: add_record_def Let_def commit_new_record_def Records_new_def)

text \<open>
  Claim C2, evaluated at a failing input. Alice has the Record with id 7 for the
  mod with id 5; attaching it again answers \<^verbatim>\<open>Already exists.\<close> with
  \<^verbatim>\<open>record_id\<close> \<open>None\<close>, not 7.
\<close>

theorem add_record_duplicate_reports_no_id:
  "Records_by_id 7 (ex_state\<lparr>g_user := Some ex_alice\<rparr>) = Some ex_record
   \<and> user_id ex_record = users_id ex_alice \<and> mod_id ex_record = 5
   \<and> add_record ex_decls 5 (ex_state\<lparr>g_user := Some ex_alice\<rparr>) =
       Inr (Jsonify [(''status'', PStr ''Already exists.''), (''record_id'', PNone)],
            ex_state\<lparr>g_user := Some ex_alice\<rparr>)"
  by (simp add: add_record_def Let_def commit_new_record_def Records_new_def Records_by_id_def
      ex_defs)

section \<open>Editing a record\<close>

text \<open>
  What \<open>edit_record\<close> does for an authenticated caller and an existing Record: a
  valid submission overwrites review, now-playing flag and play status with
  the submitted values and the notes with the one-element tuple of the
  submitted notes (the assignment ends in a comma); an invalid one changes
  nothing.
\<close>

lemma edit_record_valid:
  assumes "g_user st = Some me" and "Records_by_id rid st = Some r"
    and "validate_on_submit (RecordForm_validate cfg) req"
  shows "edit_record cfg rid req st =
           Inr (Redirect (''/records/'' @ str_nat rid) [],
                commit_record (r\<lparr>user_notes := PTuple [form_data req ''user_notes''],
                                  user_review := form_data req ''user_review'',
                                  now_playing := form_data req ''now_playing'',
                                  play_status := form_data req ''play_status''\<rparr>) st)"
  using assms by (simp add: edit_record_def Let_def bind_err_def Records_get_or_404_def)

lemma edit_record_invalid:
  assumes "g_user st = Some me" and "Records_by_id rid st = Some r"
    and "\<not> validate_on_submit (RecordForm_validate cfg) req"
  shows "edit_record cfg rid req st = Inr (Render ''record_edit.html'', st)"
  using assms by (simp add: edit_record_def bind_err_def Records_get_or_404_def)


section \<open>Deleting a mod\<close>

text \<open>
  What \<open>delete_mod\<close> does: for an anonymous caller the state is returned as it
  was, with the same redirect as after a deletion and no notice; for an
  authenticated caller no row with the given id is left.
\<close>

lemma delete_mod_anonymous:
  "g_user st = None \<Longrightarrow> delete_mod mid st = Inr (Redirect ''/mods'' [], st)"
  by (simp add: delete_mod_def)

lemma delete_mod_authenticated:
  assumes "g_user st = Some me"
  shows "\<exists>st'. delete_mod mid st = Inr (Redirect ''/mods'' [], st')
           \<and> mods_tbl st' = filter (\<lambda>m. mods_id m \<noteq> Some mid) (mods_tbl st)
           \<and> list_all (\<lambda>m. mods_id m \<noteq> Some mid) (mods_tbl st')"
  using assms by (simp add: delete_mod_def Mods_delete_by_id_def flash_def list_all_iff)

text \<open>
  Claim C7, evaluated at a failing input. An anonymous delete-mod request removes
  no row and is answered with the redirect to \<^verbatim>\<open>/mods\<close>; nothing is flashed. The
  sibling view \<open>delete_record\<close> flashes \<^verbatim>\<open>Unauthorized access.\<close> in the same
  situation.
\<close>

theorem delete_mod_anonymous_reports_nothing:
  "g_user ex_state = None
   \<and> delete_mod 5 ex_state = Inr (Redirect ''/mods'' [], ex_state)
   \<and> flashes ex_state = []
   \<and> delete_record 7 ex_state =
       Inr (Redirect ''/mods/5'' [], ex_state\<lparr>flashes := [(''Unauthorized access.'', ''message'')]\<rparr>)"
  by (simp add: delete_mod_def delete_record_def Records_by_id_def Let_def flash_def
      str_nat_digit digit_chr_def ex_defs)

section \<open>The unique keys are kept\<close>

text \<open>
  The hypotheses on the store used above hold in every state the views reach
  from one that satisfies them: file identifiers stay pairwise different under
  \<open>add_mod\<close> and \<open>delete_mod\<close>, and the users' primary keys under \<open>register\<close>.
\<close>

lemma commit_new_mod_keeps_file_ids_unique:
  assumes "distinct (map file_id (mods_tbl st))" and "commit_new_mod new st = Inr (m, st')"
  shows "distinct (map file_id (mods_tbl st'))"
proof -
  from assms(2) have fresh: "\<not> list_ex (\<lambda>x. file_id x = file_id new) (mods_tbl st)"
    and st': "mods_tbl st' = mods_tbl st @ [new\<lparr>mods_id := Some (mods_seq st)\<rparr>]"
    by (auto simp: commit_new_mod_def Let_def split: if_splits)
  from fresh have "file_id new \<notin> file_id ` set (mods_tbl st)"
    by (auto simp: list_ex_iff)
  with assms(1) show ?thesis by (simp add: st')
qed

lemma add_mod_keeps_file_ids_unique:
  assumes "distinct (map file_id (mods_tbl st))" and "add_mod req st = Inr (resp, st')"
  shows "distinct (map file_id (mods_tbl st'))"
  using assms
  by (auto simp: add_mod_def bind_err_def flash_def
      split: if_splits sum.splits option.splits prod.splits
      dest: commit_new_mod_keeps_file_ids_unique)

lemma delete_mod_keeps_file_ids_unique:
  assumes "distinct (map file_id (mods_tbl st))" and "delete_mod mid st = Inr (resp, st')"
  shows "distinct (map file_id (mods_tbl st'))"
  using assms
  by (auto simp: delete_mod_def Mods_delete_by_id_def flash_def distinct_map_filter
      split: if_splits)

lemma commit_new_user_keeps_keys:
  assumes "users_keys_ok st" and "commit_new_user new st = Inr (u, st')"
  shows "users_keys_ok st'"
proof -
  from assms(2) have tbl: "users_tbl st' = users_tbl st @ [new\<lparr>users_id := Some (users_seq st)\<rparr>]"
    and seq: "users_seq st' = Suc (users_seq st)"
    by (auto simp: commit_new_user_def Let_def split: if_splits)
  from assms(1) have d: "distinct (map users_id (users_tbl st))"
    and b: "\<forall>x \<in> set (users_tbl st). \<exists>n. users_id x = Some n \<and> n < users_seq st"
    by (simp_all add: users_keys_ok_def list_all_iff)
  from b have "Some (users_seq st) \<notin> users_id ` set (users_tbl st)" by fastforce
  with d have "distinct (map users_id (users_tbl st'))" by (simp add: tbl)
  moreover from b have "\<forall>x \<in> set (users_tbl st'). \<exists>n. users_id x = Some n \<and> n < users_seq st'"
    by (auto simp: tbl seq less_Suc_eq)
  ultimately show ?thesis by (simp add: users_keys_ok_def list_all_iff)
qed

lemma register_keeps_keys:
  assumes "users_keys_ok st" and "register cfg req st = Inr (resp, st')"
  shows "users_keys_ok st'"
proof -
  have login: "\<And>u s. users_keys_ok (do_login u s) = users_keys_ok s"
    and fl: "\<And>m c s. users_keys_ok (flash m c s) = users_keys_ok s"
    by (simp_all add: users_keys_ok_def do_login_def flash_def)
  from assms show ?thesis
    by (auto simp: register_def Let_def login fl
        split: if_splits sum.splits prod.splits error.splits
        dest: commit_new_user_keeps_keys)
qed

end
